theory Spec2Isabelle
  imports Complex_Main
begin

section \<open>JavaScript numbers\<close>

text \<open>
  Every number of \<^verbatim>\<open>ScrollableTabBar.tsx\<close> is a JavaScript number. The model keeps the
  special values of that arithmetic, because the component divides by a route count that
  can be zero: a finite value is an exact rational, and next to it stand NaN and the two
  infinities. Rounding and overflow of doubles are not modelled (finite arithmetic is
  exact), and the sign of zero is not tracked: the only divisors of the component are a
  list length clipped by \<^verbatim>\<open>Math.min\<close> and the literal 2, so a zero divisor is always +0.
\<close>

datatype jsnum = NaN | NegInf | Fin rat | PosInf

definition jnum :: "nat \<Rightarrow> jsnum" where
  "jnum n = Fin (of_nat n)"

fun jneg :: "jsnum \<Rightarrow> jsnum" where
  "jneg NaN = NaN"
| "jneg NegInf = PosInf"
| "jneg (Fin a) = Fin (- a)"
| "jneg PosInf = NegInf"

fun jadd :: "jsnum \<Rightarrow> jsnum \<Rightarrow> jsnum" where
  "jadd NaN y = NaN"
| "jadd x NaN = NaN"
| "jadd (Fin a) (Fin b) = Fin (a + b)"
| "jadd PosInf NegInf = NaN"
| "jadd NegInf PosInf = NaN"
| "jadd PosInf y = PosInf"
| "jadd x PosInf = PosInf"
| "jadd NegInf y = NegInf"
| "jadd x NegInf = NegInf"

definition jsub :: "jsnum \<Rightarrow> jsnum \<Rightarrow> jsnum" where
  "jsub x y = jadd x (jneg y)"

fun jmul :: "jsnum \<Rightarrow> jsnum \<Rightarrow> jsnum" where
  "jmul NaN y = NaN"
| "jmul x NaN = NaN"
| "jmul (Fin a) (Fin b) = Fin (a * b)"
| "jmul (Fin a) PosInf = (if a = 0 then NaN else if 0 < a then PosInf else NegInf)"
| "jmul (Fin a) NegInf = (if a = 0 then NaN else if 0 < a then NegInf else PosInf)"
| "jmul PosInf (Fin b) = (if b = 0 then NaN else if 0 < b then PosInf else NegInf)"
| "jmul NegInf (Fin b) = (if b = 0 then NaN else if 0 < b then NegInf else PosInf)"
| "jmul PosInf PosInf = PosInf"
| "jmul NegInf NegInf = PosInf"
| "jmul PosInf NegInf = NegInf"
| "jmul NegInf PosInf = NegInf"

fun jdiv :: "jsnum \<Rightarrow> jsnum \<Rightarrow> jsnum" where
  "jdiv NaN y = NaN"
| "jdiv x NaN = NaN"
| "jdiv (Fin a) (Fin b) =
     (if b \<noteq> 0 then Fin (a / b)
      else if a = 0 then NaN else if 0 < a then PosInf else NegInf)"
| "jdiv (Fin a) PosInf = Fin 0"
| "jdiv (Fin a) NegInf = Fin 0"
| "jdiv PosInf (Fin b) = (if 0 \<le> b then PosInf else NegInf)"
| "jdiv NegInf (Fin b) = (if 0 \<le> b then NegInf else PosInf)"
| "jdiv PosInf y = NaN"
| "jdiv NegInf y = NaN"

text \<open>The comparison \<^verbatim>\<open>x > y\<close>: false as soon as one side is NaN.\<close>

fun jgt :: "jsnum \<Rightarrow> jsnum \<Rightarrow> bool" where
  "jgt NaN y = False"
| "jgt x NaN = False"
| "jgt (Fin a) (Fin b) = (b < a)"
| "jgt PosInf PosInf = False"
| "jgt PosInf y = True"
| "jgt x PosInf = False"
| "jgt NegInf y = False"
| "jgt x NegInf = True"

definition jle :: "jsnum \<Rightarrow> jsnum \<Rightarrow> bool" where
  "jle x y = (x \<noteq> NaN \<and> y \<noteq> NaN \<and> \<not> jgt x y)"

text \<open>\<^verbatim>\<open>Math.max\<close> and \<^verbatim>\<open>Math.min\<close> of two arguments: NaN when one argument is NaN.\<close>

definition jmax :: "jsnum \<Rightarrow> jsnum \<Rightarrow> jsnum" where
  "jmax x y = (if x = NaN \<or> y = NaN then NaN else if jgt x y then x else y)"

definition jmin :: "jsnum \<Rightarrow> jsnum \<Rightarrow> jsnum" where
  "jmin x y = (if x = NaN \<or> y = NaN then NaN else if jgt x y then y else x)"

section \<open>Routes and navigation state\<close>

record route =
  key :: string
  name :: string

record nav_state =
  routes :: "route list"
  index :: nat

text \<open>\<^verbatim>\<open>Array.prototype.findIndex\<close>: the first position that satisfies the test, else -1.\<close>

fun findIndexFrom :: "('a \<Rightarrow> bool) \<Rightarrow> int \<Rightarrow> 'a list \<Rightarrow> int" where
  "findIndexFrom p i [] = - 1"
| "findIndexFrom p i (x # xs) = (if p x then i else findIndexFrom p (i + 1) xs)"

definition findIndex :: "('a \<Rightarrow> bool) \<Rightarrow> 'a list \<Rightarrow> int" where
  "findIndex p xs = findIndexFrom p 0 xs"

section \<open>Layout calculator\<close>

record tab_calculations =
  tabWidth :: jsnum
  totalWidth :: jsnum
  needsScroll :: bool
  activeIndex :: nat
  cameraIndex :: int
  routesCount :: nat

text \<open>
  The body of the \<^verbatim>\<open>useMemo\<close> callback. \<^verbatim>\<open>SCREEN_WIDTH\<close> is the window width read from
  the runtime when the module is loaded; it is a parameter here.
\<close>

definition tabCalculations :: "rat \<Rightarrow> nav_state \<Rightarrow> tab_calculations" where
  "tabCalculations SCREEN_WIDTH state =
     (let routesCount = length (routes state);
          visibleTabs = min routesCount 5;
          tabWidth = jdiv (Fin SCREEN_WIDTH) (jnum visibleTabs);
          totalWidth = jmul (jnum routesCount) tabWidth;
          needsScroll = jgt totalWidth (Fin SCREEN_WIDTH);
          activeIndex = index state;
          cameraIndex = findIndex (\<lambda>route. name route = ''camera'') (routes state)
      in \<lparr>tabWidth = tabWidth, totalWidth = totalWidth, needsScroll = needsScroll,
          activeIndex = activeIndex, cameraIndex = cameraIndex,
          routesCount = routesCount\<rparr>)"

section \<open>Animation driver and scroll synchronizer\<close>

text \<open>
  The component owns one animated value for the indicator and three per entry of
  \<^verbatim>\<open>iconAnimations\<close>. Starting an animation and scrolling are calls into the runtime; the
  model records them, in the order in which the source issues them.
\<close>

datatype animated_value = IndicatorAnim | IconScale nat | IconTranslateY nat | IconOpacity nat

datatype animation =
    Spring animated_value jsnum nat nat
  | Timing animated_value jsnum nat
  | Parallel "animation list"

datatype effect = Start animation | ScrollTo jsnum bool

record icon_animation =
  scale :: rat
  translateY :: rat
  opacity :: rat

text \<open>The width of the indicator, from the \<^verbatim>\<open>activeIndicator\<close> style.\<close>

definition INDICATOR_WIDTH :: rat where
  "INDICATOR_WIDTH = 40"

definition animateIndicator :: "tab_calculations \<Rightarrow> effect list" where
  "animateIndicator calc =
     [Start (Spring IndicatorAnim
        (jsub (jadd (jmul (jnum (activeIndex calc)) (tabWidth calc))
                    (jdiv (tabWidth calc) (Fin 2)))
              (Fin 20))
        300 25)]"

definition animateIcon :: "tab_calculations \<Rightarrow> nat \<Rightarrow> effect list" where
  "animateIcon calc i =
     (let isActive = (i = activeIndex calc);
          isCamera = (int i = cameraIndex calc)
      in if \<not> isCamera
         then [Start (Parallel
                 [Spring (IconScale i) (Fin (if isActive then 11 / 10 else 1)) 300 20,
                  Spring (IconTranslateY i) (Fin (if isActive then - 2 else 0)) 300 20,
                  Timing (IconOpacity i) (Fin (if isActive then 1 else 6 / 10)) 200])]
         else [])"

definition animateIcons :: "tab_calculations \<Rightarrow> icon_animation list \<Rightarrow> effect list" where
  "animateIcons calc iconAnimations =
     concat (map (animateIcon calc) [0 ..< length iconAnimations])"

text \<open>
  \<^verbatim>\<open>scrollRef\<close> says whether \<^verbatim>\<open>scrollViewRef.current\<close> holds the scroll view.
\<close>

definition autoScroll :: "bool \<Rightarrow> bool \<Rightarrow> rat \<Rightarrow> tab_calculations \<Rightarrow> effect list" where
  "autoScroll isRTL scrollRef SCREEN_WIDTH calc =
     (if needsScroll calc \<and> scrollRef
      then (let scrollOffset =
                  jmax (Fin 0)
                    (jmin (jadd (jsub (jmul (jnum (activeIndex calc)) (tabWidth calc))
                                      (jdiv (Fin SCREEN_WIDTH) (Fin 2)))
                                (jdiv (tabWidth calc) (Fin 2)))
                          (jsub (totalWidth calc) (Fin SCREEN_WIDTH)))
            in [ScrollTo
                  (if isRTL
                   then jsub (jsub (totalWidth calc) (Fin SCREEN_WIDTH)) scrollOffset
                   else scrollOffset)
                  True])
      else [])"

definition animateToActiveTab ::
  "bool \<Rightarrow> bool \<Rightarrow> rat \<Rightarrow> tab_calculations \<Rightarrow> icon_animation list \<Rightarrow> effect list" where
  "animateToActiveTab isRTL scrollRef SCREEN_WIDTH calc iconAnimations =
     animateIndicator calc @ animateIcons calc iconAnimations
       @ autoScroll isRTL scrollRef SCREEN_WIDTH calc"

fun scrollTargets :: "effect list \<Rightarrow> jsnum list" where
  "scrollTargets [] = []"
| "scrollTargets (ScrollTo x a # es) = x # scrollTargets es"
| "scrollTargets (Start a # es) = scrollTargets es"

fun springsOf :: "animated_value \<Rightarrow> effect list \<Rightarrow> (jsnum \<times> nat \<times> nat) list" where
  "springsOf v [] = []"
| "springsOf v (Start (Spring u x t f) # es) =
     (if u = v then (x, t, f) # springsOf v es else springsOf v es)"
| "springsOf v (e # es) = springsOf v es"

section \<open>Navigation events and press handlers\<close>

datatype event_type = tabPress | tabLongPress

record nav_event =
  type :: event_type
  target :: string
  canPreventDefault :: bool

datatype nav_call = Emit nav_event | Navigate string

text \<open>
  A handler runs against the router. What the router's listeners do with an emitted event
  is outside the component: \<open>prevented\<close> gives the \<^verbatim>\<open>defaultPrevented\<close> flag of the event
  that \<^verbatim>\<open>navigation.emit\<close> returns. The result lists the calls made on \<^verbatim>\<open>navigation\<close>.
  An event emitted without \<^verbatim>\<open>canPreventDefault\<close> has the flag \<open>False\<close>.
\<close>

type_synonym handler = "(nav_event \<Rightarrow> bool) \<Rightarrow> nav_call list"

definition onPress_handler :: "route \<Rightarrow> bool \<Rightarrow> handler" where
  "onPress_handler route isFocused prevented =
     (let event = \<lparr>type = tabPress, target = key route, canPreventDefault = True\<rparr>
      in Emit event #
         (if \<not> isFocused \<and> \<not> prevented event then [Navigate (name route)] else []))"

definition onLongPress_handler :: "route \<Rightarrow> handler" where
  "onLongPress_handler route prevented =
     [Emit \<lparr>type = tabLongPress, target = key route, canPreventDefault = False\<rparr>]"

section \<open>Icon resolution\<close>

datatype icon =
    Home | History | Camera | TrendingUp | User | Calendar | Watch
  | UtensilsCrossed | Bot | Scan | ClipboardList

text \<open>The own properties of the object literal \<^verbatim>\<open>iconMap\<close>, in the order of the source.\<close>

definition iconMap :: "(string \<times> icon) list" where
  "iconMap =
     [(''index'', Home), (''history'', History), (''camera'', Camera),
      (''statistics'', TrendingUp), (''calendar'', Calendar), (''devices'', Watch),
      (''recommended-menus'', UtensilsCrossed), (''ai-chat'', Bot),
      (''food-scanner'', Scan), (''questionnaire'', ClipboardList), (''profile'', User)]"

text \<open>
  \<^verbatim>\<open>iconMap\<close> is a plain object, so a property read that finds no own property goes on to
  \<^verbatim>\<open>Object.prototype\<close>. These are the properties the language standard and its annex
  on legacy features put there; each is a function, or an object for \<^verbatim>\<open>__proto__\<close>,
  hence truthy.
\<close>

definition Object_prototype :: "string list" where
  "Object_prototype =
     [''constructor'', ''hasOwnProperty'', ''isPrototypeOf'', ''propertyIsEnumerable'',
      ''toLocaleString'', ''toString'', ''valueOf'', ''__proto__'', ''__defineGetter__'',
      ''__defineSetter__'', ''__lookupGetter__'', ''__lookupSetter__'']"

datatype js_value = Component icon | Inherited string

text \<open>The property read \<^verbatim>\<open>iconMap[name]\<close>; \<open>None\<close> is \<^verbatim>\<open>undefined\<close>.\<close>

definition iconMap_get :: "string \<Rightarrow> js_value option" where
  "iconMap_get n =
     (case map_of iconMap n of
        Some c \<Rightarrow> Some (Component c)
      | None \<Rightarrow> if n \<in> set Object_prototype then Some (Inherited n) else None)"

text \<open>\<^verbatim>\<open>iconMap[route.name] || Home\<close>.\<close>

definition IconComponent :: "string \<Rightarrow> js_value" where
  "IconComponent n = (case iconMap_get n of Some v \<Rightarrow> v | None \<Rightarrow> Component Home)"

section \<open>Renderer\<close>

datatype js_error = TypeError

record options =
  tabBarLabel :: "string option"
  title :: "string option"

record props =
  state :: nav_state
  descriptors :: "string \<Rightarrow> options option"

text \<open>
  What the hooks of the surrounding application give: the text direction, the label
  lookup, and whether the ref of the scroll view is attached.
\<close>

record hooks =
  isRTL :: bool
  translate :: "string \<Rightarrow> string"
  scrollViewRef :: bool

record touchable =
  onPress :: handler
  onLongPress :: "handler option"

record tab_item = touchable +
  item_key :: string
  width :: jsnum
  selected :: bool
  accessibilityLabel :: string
  icon_component :: js_value
  animated :: icon_animation

datatype child = View string jsnum | TouchableOpacity tab_item

datatype side = Left | Right

record camera_button = touchable +
  focused :: bool
  edge :: side
  cameraLabel :: string

record view =
  contentWidth :: jsnum
  children :: "child list"
  floating :: "camera_button option"

text \<open>\<^verbatim>\<open>a || b\<close> on optional strings: the empty string is falsy.\<close>

definition or_else :: "string option \<Rightarrow> string option \<Rightarrow> string option" where
  "or_else a b = (case a of Some s \<Rightarrow> if s = [] then b else a | None \<Rightarrow> b)"

text \<open>\<^verbatim>\<open>xs[i]\<close> on an array: \<open>None\<close> is \<^verbatim>\<open>undefined\<close>.\<close>

definition at_index :: "'a list \<Rightarrow> nat \<Rightarrow> 'a option" where
  "at_index xs i = (if i < length xs then Some (xs ! i) else None)"

text \<open>
  The callback of \<^verbatim>\<open>state.routes.map\<close>. Destructuring \<^verbatim>\<open>descriptors[route.key]\<close> and
  reading \<^verbatim>\<open>iconAnimations[index].scale\<close> raise a TypeError on \<^verbatim>\<open>undefined\<close>.
\<close>

definition renderTab ::
  "props \<Rightarrow> tab_calculations \<Rightarrow> icon_animation list \<Rightarrow> nat \<Rightarrow> route \<Rightarrow> js_error + child" where
  "renderTab p calc anims i route =
     (case descriptors p (key route) of
        None \<Rightarrow> Inl TypeError
      | Some opts \<Rightarrow>
          (let label = (case or_else (or_else (tabBarLabel opts) (title opts))
                                     (Some (name route)) of
                          Some s \<Rightarrow> s | None \<Rightarrow> name route);
               isFocused = (index (state p) = i);
               ic = IconComponent (name route)
           in if name route = ''camera'' then Inr (View (key route) (tabWidth calc))
              else (case at_index anims i of
                      None \<Rightarrow> Inl TypeError
                    | Some anim \<Rightarrow>
                        Inr (TouchableOpacity
                          \<lparr>onPress = onPress_handler route isFocused,
                           onLongPress = Some (onLongPress_handler route),
                           item_key = key route, width = tabWidth calc,
                           selected = isFocused, accessibilityLabel = label,
                           icon_component = ic, animated = anim\<rparr>))))"

fun renderTabs :: "(nat \<Rightarrow> route \<Rightarrow> js_error + child) \<Rightarrow> nat \<Rightarrow> route list \<Rightarrow> js_error + child list" where
  "renderTabs f i [] = Inr []"
| "renderTabs f i (r # rs) =
     (case f i r of
        Inl e \<Rightarrow> Inl e
      | Inr c \<Rightarrow> (case renderTabs f (Suc i) rs of Inl e \<Rightarrow> Inl e | Inr cs \<Rightarrow> Inr (c # cs)))"

definition renderFloatingCameraButton ::
  "props \<Rightarrow> hooks \<Rightarrow> tab_calculations \<Rightarrow> js_error + camera_button option" where
  "renderFloatingCameraButton p h calc =
     (case find (\<lambda>route. name route = ''camera'') (routes (state p)) of
        None \<Rightarrow> Inr None
      | Some cameraRoute \<Rightarrow>
          (case descriptors p (key cameraRoute) of
             None \<Rightarrow> Inl TypeError
           | Some opts \<Rightarrow>
               (let isFocused = (int (index (state p)) = cameraIndex calc)
                in Inr (Some \<lparr>onPress = onPress_handler cameraRoute isFocused,
                              onLongPress = None,
                              focused = isFocused,
                              edge = (if isRTL h then Left else Right),
                              cameraLabel = translate h ''tabs.camera''\<rparr>))))"

definition render ::
  "rat \<Rightarrow> props \<Rightarrow> hooks \<Rightarrow> tab_calculations \<Rightarrow> icon_animation list \<Rightarrow> js_error + view" where
  "render SCREEN_WIDTH p h calc anims =
     (case renderTabs (renderTab p calc anims) 0 (routes (state p)) of
        Inl e \<Rightarrow> Inl e
      | Inr cs \<Rightarrow>
          (case renderFloatingCameraButton p h calc of
             Inl e \<Rightarrow> Inl e
           | Inr fb \<Rightarrow>
               Inr \<lparr>contentWidth = jmax (Fin SCREEN_WIDTH) (totalWidth calc),
                    children = cs, floating = fb\<rparr>))"

text \<open>
  The gestures of a touchable: a press runs its \<^verbatim>\<open>onPress\<close>, a long press runs its
  \<^verbatim>\<open>onLongPress\<close> when one is registered and nothing of the component otherwise.
\<close>

definition press :: "'a touchable_scheme \<Rightarrow> handler" where
  "press tc = onPress tc"

definition longPress :: "'a touchable_scheme \<Rightarrow> handler" where
  "longPress tc = (case onLongPress tc of Some f \<Rightarrow> f | None \<Rightarrow> (\<lambda>prevented. []))"

section \<open>The mounted component\<close>

text \<open>
  What the hooks keep between renders: the array behind \<^verbatim>\<open>useRef\<close>, the value and the
  dependencies of \<^verbatim>\<open>useMemo\<close>, and the \<^verbatim>\<open>isRTL\<close> that \<^verbatim>\<open>useCallback\<close> last saw. The
  effect runs after a render in which \<^verbatim>\<open>animateToActiveTab\<close> is a new function, which is
  when the memo was recomputed or \<^verbatim>\<open>isRTL\<close> changed.
\<close>

record component =
  iconAnimations :: "icon_animation list"
  memo :: tab_calculations
  memo_deps :: "nat \<times> nat"
  callback_isRTL :: bool

definition mount ::
  "rat \<Rightarrow> props \<Rightarrow> hooks \<Rightarrow> js_error + (component \<times> view \<times> effect list)" where
  "mount SCREEN_WIDTH p h =
     (let anims = map (\<lambda>r. \<lparr>scale = 1, translateY = 0, opacity = 7 / 10\<rparr>)
                      (routes (state p));
          calc = tabCalculations SCREEN_WIDTH (state p)
      in case render SCREEN_WIDTH p h calc anims of
           Inl e \<Rightarrow> Inl e
         | Inr v \<Rightarrow>
             Inr (\<lparr>iconAnimations = anims, memo = calc,
                   memo_deps = (length (routes (state p)), index (state p)),
                   callback_isRTL = isRTL h\<rparr>,
                  v,
                  animateToActiveTab (isRTL h) (scrollViewRef h) SCREEN_WIDTH calc anims))"

definition update ::
  "rat \<Rightarrow> props \<Rightarrow> hooks \<Rightarrow> component \<Rightarrow> js_error + (component \<times> view \<times> effect list)" where
  "update SCREEN_WIDTH p h c =
     (let deps = (length (routes (state p)), index (state p));
          recomputed = (deps \<noteq> memo_deps c);
          calc = (if recomputed then tabCalculations SCREEN_WIDTH (state p) else memo c);
          rerun = (recomputed \<or> isRTL h \<noteq> callback_isRTL c)
      in case render SCREEN_WIDTH p h calc (iconAnimations c) of
           Inl e \<Rightarrow> Inl e
         | Inr v \<Rightarrow>
             Inr (c\<lparr>memo := calc, memo_deps := deps, callback_isRTL := isRTL h\<rparr>,
                  v,
                  if rerun
                  then animateToActiveTab (isRTL h) (scrollViewRef h) SCREEN_WIDTH calc
                         (iconAnimations c)
                  else []))"

fun updates :: "rat \<Rightarrow> (props \<times> hooks) list \<Rightarrow> component \<Rightarrow> js_error + component" where
  "updates SCREEN_WIDTH [] c = Inr c"
| "updates SCREEN_WIDTH ((p, h) # rest) c =
     (case update SCREEN_WIDTH p h c of
        Inl e \<Rightarrow> Inl e
      | Inr (c', v, es) \<Rightarrow> updates SCREEN_WIDTH rest c')"

section \<open>The clamp of the specification\<close>

text \<open>
  The specification writes the scroll offset as \<open>clamp(x, lo, hi)\<close>; the source nests
  \<^verbatim>\<open>Math.max\<close> and \<^verbatim>\<open>Math.min\<close>. This is the specification's function, to compare the
  source with.
\<close>

definition clamp :: "jsnum \<Rightarrow> jsnum \<Rightarrow> jsnum \<Rightarrow> jsnum" where
  "clamp x lo hi = (if jgt lo x then lo else if jgt x hi then hi else x)"

section \<open>A worked example\<close>

text \<open>
  Six routes with the camera at position 2, and three routes, with descriptors that set
  no label: the inputs of the instances worked out below.
\<close>

definition route_named :: "string \<Rightarrow> route" where
  "route_named n = \<lparr>key = n, name = n\<rparr>"

definition six_tabs :: "nat \<Rightarrow> nav_state" where
  "six_tabs i =
     \<lparr>routes = map route_named
        [''index'', ''history'', ''camera'', ''statistics'', ''calendar'', ''profile''],
      index = i\<rparr>"

definition three_tabs :: "nat \<Rightarrow> nav_state" where
  "three_tabs i = \<lparr>routes = map route_named [''index'', ''camera'', ''profile''], index = i\<rparr>"

definition example_props :: "nav_state \<Rightarrow> props" where
  "example_props st =
     \<lparr>state = st, descriptors = (\<lambda>k. Some \<lparr>tabBarLabel = None, title = None\<rparr>)\<rparr>"

definition example_hooks :: hooks where
  "example_hooks = \<lparr>isRTL = False, translate = (\<lambda>s. s), scrollViewRef = True\<rparr>"

section \<open>Properties of the layout calculator\<close>

lemma tabWidth_nonempty:
  "routes st \<noteq> [] \<Longrightarrow>
   tabWidth (tabCalculations w st) = Fin (w / of_nat (min (length (routes st)) 5))"
  by (simp add: tabCalculations_def Let_def jnum_def)

lemma totalWidth_nonempty:
  "routes st \<noteq> [] \<Longrightarrow>
   totalWidth (tabCalculations w st)
     = Fin (of_nat (length (routes st)) * (w / of_nat (min (length (routes st)) 5)))"
  by (simp add: tabCalculations_def Let_def jnum_def)

lemma needsScroll_nonempty:
  "routes st \<noteq> [] \<Longrightarrow>
   needsScroll (tabCalculations w st)
     = (w < of_nat (length (routes st)) * (w / of_nat (min (length (routes st)) 5)))"
  by (simp add: tabCalculations_def Let_def jnum_def)

lemma needsScroll_empty: "routes st = [] \<Longrightarrow> \<not> needsScroll (tabCalculations w st)"
  by (simp add: tabCalculations_def Let_def jnum_def)

lemma activeIndex_tabCalculations [simp]: "activeIndex (tabCalculations w st) = index st"
  by (simp add: tabCalculations_def Let_def)

lemma needsScroll_finite:
  assumes "needsScroll (tabCalculations w st)"
  shows "\<exists>tw T. tabWidth (tabCalculations w st) = Fin tw
           \<and> totalWidth (tabCalculations w st) = Fin T \<and> w < T"
proof -
  from assms have ne: "routes st \<noteq> []" using needsScroll_empty by blast
  from assms show ?thesis
    by (simp add: tabWidth_nonempty totalWidth_nonempty needsScroll_nonempty ne)
qed

lemma length_six_tabs: "length (routes (six_tabs i)) = 6"
  by (simp add: six_tabs_def)

lemma length_three_tabs: "length (routes (three_tabs i)) = 3"
  by (simp add: three_tabs_def)



section \<open>Properties of the animation driver and the scroll synchronizer\<close>

lemma scrollTargets_append: "scrollTargets (xs @ ys) = scrollTargets xs @ scrollTargets ys"
  by (induction xs rule: scrollTargets.induct) simp_all

lemma scrollTargets_animateIcon: "scrollTargets (animateIcon c i) = []"
  by (simp add: animateIcon_def Let_def)

lemma scrollTargets_concat_icons: "scrollTargets (concat (map (animateIcon c) is)) = []"
  by (induction "is") (simp_all add: scrollTargets_append scrollTargets_animateIcon)

lemma scrollTargets_animateToActiveTab:
  "scrollTargets (animateToActiveTab rtl sr w c anims) = scrollTargets (autoScroll rtl sr w c)"
  by (simp add: animateToActiveTab_def animateIndicator_def animateIcons_def
      scrollTargets_append scrollTargets_concat_icons)

lemma springsOf_append: "springsOf v (xs @ ys) = springsOf v xs @ springsOf v ys"
  by (induction v xs rule: springsOf.induct) simp_all

lemma springsOf_animateIcon: "springsOf v (animateIcon c i) = []"
  by (simp add: animateIcon_def Let_def)

lemma springsOf_concat_icons: "springsOf v (concat (map (animateIcon c) is)) = []"
  by (induction "is") (simp_all add: springsOf_append springsOf_animateIcon)

lemma springsOf_autoScroll: "springsOf v (autoScroll rtl sr w c) = []"
  by (simp add: autoScroll_def Let_def)

lemma springsOf_animateToActiveTab:
  "springsOf IndicatorAnim (animateToActiveTab rtl sr w c anims)
     = [(jsub (jadd (jmul (jnum (activeIndex c)) (tabWidth c)) (jdiv (tabWidth c) (Fin 2)))
              (Fin 20), 300, 25)]"
  by (simp add: animateToActiveTab_def animateIndicator_def animateIcons_def
      springsOf_append springsOf_concat_icons springsOf_autoScroll)

lemma jmax_jmin_clamp:
  "0 \<le> b \<Longrightarrow> jmax (Fin 0) (jmin (Fin a) (Fin b)) = clamp (Fin a) (Fin 0) (Fin b)"
  by (auto simp: jmax_def jmin_def clamp_def)

lemma clamp_bounds:
  "0 \<le> b \<Longrightarrow> jle (Fin 0) (clamp (Fin a) (Fin 0) (Fin b))
     \<and> jle (clamp (Fin a) (Fin 0) (Fin b)) (jmax (Fin 0) (Fin b))"
  by (auto simp: jmax_def clamp_def jle_def)




text \<open>
  C5. The scroll command is issued only when the overflow flag is set (and the ref of the
  scroll view is attached). In left-to-right mode its offset is
  \<open>clamp(activeIndex * tabWidth - viewportWidth / 2 + tabWidth / 2, 0,
  totalWidth - viewportWidth)\<close>, and so lies within
  \<open>[0, max(0, totalWidth - viewportWidth)]\<close>, for every active index.
\<close>

theorem scroll_offset_clamped:
  "let c = tabCalculations w st;
       centred = jadd (jsub (jmul (jnum (index st)) (tabWidth c)) (jdiv (Fin w) (Fin 2)))
                      (jdiv (tabWidth c) (Fin 2));
       room = jsub (totalWidth c) (Fin w);
       xs = scrollTargets (animateToActiveTab False sr w c anims)
   in xs = (if needsScroll c \<and> sr then [clamp centred (Fin 0) room] else [])
      \<and> (\<forall>x \<in> set xs. jle (Fin 0) x \<and> jle x (jmax (Fin 0) room))"
proof (cases "needsScroll (tabCalculations w st) \<and> sr")
  case False
  then show ?thesis
    by (auto simp: Let_def scrollTargets_animateToActiveTab autoScroll_def)
next
  case True
  then obtain tw T where tw: "tabWidth (tabCalculations w st) = Fin tw"
    and T: "totalWidth (tabCalculations w st) = Fin T" and wT: "w < T"
    using needsScroll_finite by blast
  from wT have room: "0 \<le> T - w" by simp
  have eq: "scrollTargets (animateToActiveTab False sr w (tabCalculations w st) anims)
      = [clamp (Fin (of_nat (index st) * tw - w / 2 + tw / 2)) (Fin 0) (Fin (T - w))]"
    using True jmax_jmin_clamp [OF room]
    by (simp add: scrollTargets_animateToActiveTab autoScroll_def Let_def tw T jnum_def jsub_def)
  show ?thesis
    using True clamp_bounds [OF room] eq
    by (simp add: Let_def tw T jnum_def jsub_def)
qed

text \<open>
  The end-to-end example of the specification: six routes, viewport 360, active index 4,
  scroll offset 72.
\<close>

theorem scroll_offset_clamped_witness:
  "scrollTargets (animateToActiveTab False True 360 (tabCalculations 360 (six_tabs 4)) [])
     = [Fin 72]
   \<and> jle (Fin 0) (Fin 72) \<and> jle (Fin 72) (jmax (Fin 0) (Fin 72))"
  using scroll_offset_clamped [of 360 "six_tabs 4" True "[]"]
  by (simp add: Let_def tabWidth_nonempty totalWidth_nonempty needsScroll_nonempty
      six_tabs_def jnum_def jsub_def clamp_def jle_def jmax_def)

text \<open>
  C6. In right-to-left mode the offset passed to the scroll command is
  \<open>totalWidth - viewportWidth - offset\<close>, where \<open>offset\<close> is the offset that the same state
  gives in left-to-right mode; when one mode issues no command, neither does the other.
\<close>

theorem rtl_mirror:
  "scrollTargets (animateToActiveTab True sr w (tabCalculations w st) anims)
     = map (\<lambda>offset. jsub (jsub (totalWidth (tabCalculations w st)) (Fin w)) offset)
         (scrollTargets (animateToActiveTab False sr w (tabCalculations w st) anims))"
  by (simp add: scrollTargets_animateToActiveTab autoScroll_def Let_def)

theorem rtl_mirror_witness:
  "scrollTargets (animateToActiveTab False True 360 (tabCalculations 360 (six_tabs 0)) [])
     = [Fin 0]
   \<and> scrollTargets (animateToActiveTab True True 360 (tabCalculations 360 (six_tabs 0)) [])
     = [Fin 72]"
  using rtl_mirror [of True 360 "six_tabs 0" "[]"]
  by (simp add: scrollTargets_animateToActiveTab autoScroll_def Let_def tabWidth_nonempty
      totalWidth_nonempty needsScroll_nonempty six_tabs_def jnum_def jsub_def jmax_def jmin_def)

section \<open>Properties of the renderer\<close>

lemma renderTabs_Inr:
  "renderTabs f k rs = Inr cs \<Longrightarrow>
   length cs = length rs \<and> (\<forall>i < length rs. f (k + i) (rs ! i) = Inr (cs ! i))"
proof (induction rs arbitrary: k cs)
  case Nil
  then show ?case by simp
next
  case (Cons r rs)
  from Cons.prems obtain c cs' where c: "f k r = Inr c"
    and cs': "renderTabs f (Suc k) rs = Inr cs'" and cs: "cs = c # cs'"
    by (auto split: sum.splits)
  from Cons.IH [OF cs'] have len: "length cs' = length rs"
    and nth: "\<forall>i < length rs. f (Suc k + i) (rs ! i) = Inr (cs' ! i)" by simp_all
  show ?case
  proof (intro conjI allI impI)
    show "length cs = length (r # rs)" using len cs by simp
  next
    fix i assume "i < length (r # rs)"
    then show "f (k + i) ((r # rs) ! i) = Inr (cs ! i)"
      using c nth cs by (cases i) simp_all
  qed
qed

lemma renderTabs_ok:
  "(\<forall>i < length rs. \<exists>c. f (k + i) (rs ! i) = Inr c) \<Longrightarrow> \<exists>cs. renderTabs f k rs = Inr cs"
proof (induction rs arbitrary: k)
  case Nil
  then show ?case by simp
next
  case (Cons r rs)
  from Cons.prems have "\<exists>c. f (k + 0) ((r # rs) ! 0) = Inr c" by blast
  then obtain c where c: "f k r = Inr c" by auto
  have "\<forall>i < length rs. \<exists>c. f (Suc k + i) (rs ! i) = Inr c"
  proof (intro allI impI)
    fix i assume "i < length rs"
    then have "\<exists>c. f (k + Suc i) ((r # rs) ! Suc i) = Inr c" using Cons.prems by auto
    then show "\<exists>c. f (Suc k + i) (rs ! i) = Inr c" by simp
  qed
  from Cons.IH [OF this] obtain cs where "renderTabs f (Suc k) rs = Inr cs" by blast
  with c show ?case by simp
qed

lemma renderTabs_error:
  "i < length rs \<Longrightarrow> f (k + i) (rs ! i) = Inl e \<Longrightarrow> renderTabs f k rs = Inl TypeError"
proof (induction rs arbitrary: k i)
  case Nil
  then show ?case by simp
next
  case (Cons r rs)
  show ?case
  proof (cases i)
    case 0
    with Cons.prems have "f k r = Inl e" by simp
    then show ?thesis by (cases e) simp
  next
    case (Suc j)
    with Cons.prems have "j < length rs" and "f (Suc k + j) (rs ! j) = Inl e" by simp_all
    from Cons.IH [OF this] have "renderTabs f (Suc k) rs = Inl TypeError" .
    then show ?thesis by (auto split: sum.splits intro: js_error.exhaust)
  qed
qed

lemma render_Inr:
  "render w p h calc anims = Inr v \<Longrightarrow>
   renderTabs (renderTab p calc anims) 0 (routes (state p)) = Inr (children v)
   \<and> renderFloatingCameraButton p h calc = Inr (floating v)"
  by (auto simp: render_def split: sum.splits)

lemma renderTab_tab:
  "renderTab p calc anims i r = Inr c \<Longrightarrow> name r \<noteq> ''camera'' \<Longrightarrow>
   \<exists>tb. c = TouchableOpacity tb \<and> onPress tb = onPress_handler r (index (state p) = i)
     \<and> onLongPress tb = Some (onLongPress_handler r)
     \<and> selected tb = (index (state p) = i) \<and> item_key tb = key r
     \<and> icon_component tb = IconComponent (name r) \<and> at_index anims i = Some (animated tb)"
  by (auto simp: renderTab_def Let_def split: option.splits)

lemma renderTab_camera:
  "renderTab p calc anims i r = Inr c \<Longrightarrow> name r = ''camera'' \<Longrightarrow>
   c = View (key r) (tabWidth calc)"
  by (auto simp: renderTab_def Let_def split: option.splits)

lemma renderTab_out_of_range:
  "length anims \<le> i \<Longrightarrow> name r \<noteq> ''camera'' \<Longrightarrow> renderTab p calc anims i r = Inl TypeError"
  by (auto simp: renderTab_def Let_def at_index_def split: option.splits)

lemma renderTab_ok:
  "descriptors p (key r) \<noteq> None \<Longrightarrow> i < length anims \<Longrightarrow>
   \<exists>c. renderTab p calc anims i r = Inr c"
  by (auto simp: renderTab_def Let_def at_index_def split: option.splits)

lemma renderFloating_Some:
  "renderFloatingCameraButton p h calc = Inr (Some fb) \<Longrightarrow>
   \<exists>cameraRoute. find (\<lambda>route. name route = ''camera'') (routes (state p)) = Some cameraRoute
     \<and> onPress fb = onPress_handler cameraRoute (int (index (state p)) = cameraIndex calc)
     \<and> onLongPress fb = None
     \<and> focused fb = (int (index (state p)) = cameraIndex calc)"
  by (auto simp: renderFloatingCameraButton_def Let_def split: option.splits)

lemma render_child:
  assumes "render w p h calc anims = Inr v" and "i < length (routes (state p))"
  shows "renderTab p calc anims i (routes (state p) ! i) = Inr (children v ! i)"
  using renderTabs_Inr [of "renderTab p calc anims" 0 "routes (state p)" "children v"]
    render_Inr [OF assms(1)] assms(2) by simp

lemma renderFloating_ok:
  assumes "\<forall>r \<in> set (routes (state p)). descriptors p (key r) \<noteq> None"
  shows "\<exists>fb. renderFloatingCameraButton p h calc = Inr fb"
proof (cases "find (\<lambda>route. name route = ''camera'') (routes (state p))")
  case None
  then show ?thesis by (simp add: renderFloatingCameraButton_def)
next
  case (Some r)
  then have "r \<in> set (routes (state p))" by (auto simp: find_Some_iff)
  with assms obtain opts where "descriptors p (key r) = Some opts" by auto
  with Some show ?thesis by (simp add: renderFloatingCameraButton_def Let_def)
qed

lemma render_ok:
  assumes d: "\<forall>r \<in> set (routes (state p)). descriptors p (key r) \<noteq> None"
    and n: "length (routes (state p)) \<le> length anims"
  shows "\<exists>v. render w p h calc anims = Inr v"
proof -
  have "\<forall>i < length (routes (state p)).
          \<exists>c. renderTab p calc anims (0 + i) (routes (state p) ! i) = Inr c"
    using d n by (auto intro!: renderTab_ok)
  from renderTabs_ok [OF this] obtain cs
    where cs: "renderTabs (renderTab p calc anims) 0 (routes (state p)) = Inr cs" by blast
  from renderFloating_ok [OF d] obtain fb
    where fb: "renderFloatingCameraButton p h calc = Inr fb" by blast
  from cs fb show ?thesis by (simp add: render_def)
qed

section \<open>Properties of the mounted component\<close>

lemma mount_ok:
  assumes "\<forall>r \<in> set (routes (state p)). descriptors p (key r) \<noteq> None"
  shows "\<exists>c v es. mount w p h = Inr (c, v, es)"
proof -
  from render_ok [OF assms, of "map (\<lambda>r. \<lparr>scale = 1, translateY = 0, opacity = 7 / 10\<rparr>)
      (routes (state p))" w h "tabCalculations w (state p)"]
  obtain v where "render w p h (tabCalculations w (state p))
      (map (\<lambda>r. \<lparr>scale = 1, translateY = 0, opacity = 7 / 10\<rparr>) (routes (state p))) = Inr v"
    by auto
  then show ?thesis by (simp add: mount_def Let_def)
qed

lemma update_ok:
  assumes "\<forall>r \<in> set (routes (state p)). descriptors p (key r) \<noteq> None"
    and "length (routes (state p)) \<le> length (iconAnimations c)"
  shows "\<exists>c' v es. update w p h c = Inr (c', v, es)"
proof -
  from render_ok [OF assms, of w h
      "if (length (routes (state p)), index (state p)) \<noteq> memo_deps c
       then tabCalculations w (state p) else memo c"]
  obtain v where "render w p h
      (if (length (routes (state p)), index (state p)) \<noteq> memo_deps c
       then tabCalculations w (state p) else memo c) (iconAnimations c) = Inr v"
    by auto
  then show ?thesis by (simp add: update_def Let_def)
qed

lemma mount_component:
  "mount w p h = Inr (c, v, es) \<Longrightarrow>
   iconAnimations c = map (\<lambda>r. \<lparr>scale = 1, translateY = 0, opacity = 7 / 10\<rparr>) (routes (state p))
   \<and> memo c = tabCalculations w (state p)
   \<and> memo_deps c = (length (routes (state p)), index (state p))
   \<and> callback_isRTL c = isRTL h
   \<and> render w p h (tabCalculations w (state p)) (iconAnimations c) = Inr v
   \<and> es = animateToActiveTab (isRTL h) (scrollViewRef h) w (memo c) (iconAnimations c)"
  by (auto simp: mount_def Let_def split: sum.splits)

lemma update_component:
  "update w p h c = Inr (c', v, es) \<Longrightarrow>
   iconAnimations c' = iconAnimations c
   \<and> memo c' = (if (length (routes (state p)), index (state p)) \<noteq> memo_deps c
                then tabCalculations w (state p) else memo c)
   \<and> memo_deps c' = (length (routes (state p)), index (state p))
   \<and> callback_isRTL c' = isRTL h
   \<and> render w p h (memo c') (iconAnimations c) = Inr v
   \<and> es = (if (length (routes (state p)), index (state p)) \<noteq> memo_deps c
            \<or> isRTL h \<noteq> callback_isRTL c
          then animateToActiveTab (isRTL h) (scrollViewRef h) w (memo c') (iconAnimations c)
          else [])"
  by (auto simp: update_def Let_def split: sum.splits)

lemma updates_iconAnimations:
  "updates w phs c = Inr c' \<Longrightarrow> iconAnimations c' = iconAnimations c"
proof (induction phs arbitrary: c)
  case Nil
  then show ?case by simp
next
  case (Cons ph phs)
  obtain p h where ph: "ph = (p, h)" by (cases ph)
  from Cons.prems ph obtain c1 v es where u: "update w p h c = Inr (c1, v, es)"
    and r: "updates w phs c1 = Inr c'"
    by (auto split: sum.splits prod.splits)
  from Cons.IH [OF r] update_component [OF u] show ?case by simp
qed

lemma example_descriptors:
  "\<forall>r \<in> set (routes (state (example_props st))). descriptors (example_props st) (key r) \<noteq> None"
  by (simp add: example_props_def)

lemma state_example_props [simp]: "state (example_props st) = st"
  by (simp add: example_props_def)

lemma example_mount:
  "\<exists>c v es fb.
     mount 360 (example_props (three_tabs 0)) example_hooks = Inr (c, v, es)
     \<and> render 360 (example_props (three_tabs 0)) example_hooks
         (tabCalculations 360 (three_tabs 0)) (iconAnimations c) = Inr v
     \<and> floating v = Some fb"
proof -
  obtain c v es
    where m: "mount 360 (example_props (three_tabs 0)) example_hooks = Inr (c, v, es)"
    using mount_ok [OF example_descriptors] by blast
  from mount_component [OF m]
  have "render 360 (example_props (three_tabs 0)) example_hooks
      (tabCalculations 360 (state (example_props (three_tabs 0)))) (iconAnimations c) = Inr v"
    by blast
  then have r: "render 360 (example_props (three_tabs 0)) example_hooks
      (tabCalculations 360 (three_tabs 0)) (iconAnimations c) = Inr v"
    by (simp only: state_example_props)
  from render_Inr [OF r]
  have "renderFloatingCameraButton (example_props (three_tabs 0)) example_hooks
      (tabCalculations 360 (three_tabs 0)) = Inr (floating v)" by simp
  moreover have "\<exists>fb. renderFloatingCameraButton (example_props (three_tabs 0)) example_hooks
      (tabCalculations 360 (three_tabs 0)) = Inr (Some fb)"
    by (simp add: renderFloatingCameraButton_def Let_def three_tabs_def route_named_def
        example_props_def)
  ultimately have "\<exists>fb. floating v = Some fb" by auto
  with m r show ?thesis by blast
qed

lemma example_positions:
  "0 < length (routes (state (example_props (three_tabs 0))))"
  "1 < length (routes (state (example_props (three_tabs 0))))"
  "2 < length (routes (state (example_props (three_tabs 0))))"
  "name (routes (state (example_props (three_tabs 0))) ! 0) \<noteq> ''camera''"
  "name (routes (state (example_props (three_tabs 0))) ! 2) \<noteq> ''camera''"
  by (simp_all add: three_tabs_def route_named_def)





text \<open>
  C9. \<open>iconAnimations\<close> is built at mount with one entry per route of that moment, and no
  later render changes it. So \<open>iconAnimations[i]\<close> is \<open>undefined\<close> exactly for the positions
  \<open>i\<close> from the mount-time route count on, every position of a later route list has an
  entry exactly when that list is no longer than the mount-time one, and a render with a
  route other than the camera at such a position raises a TypeError.
\<close>

theorem icon_animations_fixed:
  assumes "mount w p0 h0 = Inr (c0, v0, es0)" and "updates w phs c0 = Inr c"
  shows "iconAnimations c = iconAnimations c0
       \<and> length (iconAnimations c) = length (routes (state p0))
       \<and> (\<forall>i. (at_index (iconAnimations c) i = None) = (length (routes (state p0)) \<le> i))
       \<and> (\<forall>p. (\<forall>i < length (routes (state p)). at_index (iconAnimations c) i \<noteq> None)
               = (length (routes (state p)) \<le> length (routes (state p0))))
       \<and> (\<forall>p h i. i < length (routes (state p)) \<and> length (routes (state p0)) \<le> i
               \<and> name (routes (state p) ! i) \<noteq> ''camera''
             \<longrightarrow> update w p h c = Inl TypeError)"
proof -
  have same: "iconAnimations c = iconAnimations c0"
    using updates_iconAnimations [OF assms(2)] .
  have len: "length (iconAnimations c) = length (routes (state p0))"
    using mount_component [OF assms(1)] same by simp
  have at: "(at_index (iconAnimations c) i = None) = (length (routes (state p0)) \<le> i)" for i
    using len by (auto simp: at_index_def)
  have all: "(\<forall>i < length (routes (state p)). at_index (iconAnimations c) i \<noteq> None)
      = (length (routes (state p)) \<le> length (routes (state p0)))" for p
  proof
    assume a: "\<forall>i < length (routes (state p)). at_index (iconAnimations c) i \<noteq> None"
    show "length (routes (state p)) \<le> length (routes (state p0))"
    proof (rule ccontr)
      assume "\<not> length (routes (state p)) \<le> length (routes (state p0))"
      then have "length (routes (state p0)) < length (routes (state p))" by simp
      with a have "at_index (iconAnimations c) (length (routes (state p0))) \<noteq> None" by blast
      with at show False by simp
    qed
  next
    assume "length (routes (state p)) \<le> length (routes (state p0))"
    then show "\<forall>i < length (routes (state p)). at_index (iconAnimations c) i \<noteq> None"
      using at by auto
  qed
  have err: "update w p h c = Inl TypeError"
    if "i < length (routes (state p)) \<and> length (routes (state p0)) \<le> i
        \<and> name (routes (state p) ! i) \<noteq> ''camera''" for p h i
  proof -
    let ?calc = "if (length (routes (state p)), index (state p)) \<noteq> memo_deps c
                 then tabCalculations w (state p) else memo c"
    from that len have "renderTab p ?calc (iconAnimations c) (0 + i) (routes (state p) ! i)
        = Inl TypeError"
      by (simp add: renderTab_out_of_range)
    with that have "renderTabs (renderTab p ?calc (iconAnimations c)) 0 (routes (state p))
        = Inl TypeError"
      by (intro renderTabs_error) auto
    then show ?thesis by (simp add: update_def Let_def render_def)
  qed
  from same len at all err show ?thesis by blast
qed

theorem icon_animations_fixed_witness:
  "\<exists>c0 v0 es0 c.
     mount 360 (example_props (three_tabs 0)) example_hooks = Inr (c0, v0, es0)
     \<and> updates 360 [(example_props (three_tabs 1), example_hooks)] c0 = Inr c
     \<and> length (iconAnimations c) = 3
     \<and> at_index (iconAnimations c) 3 = None
     \<and> update 360 (example_props (six_tabs 1)) example_hooks c = Inl TypeError"
proof -
  obtain c0 v0 es0
    where m: "mount 360 (example_props (three_tabs 0)) example_hooks = Inr (c0, v0, es0)"
    using mount_ok [OF example_descriptors] by blast
  from mount_component [OF m] have "length (iconAnimations c0) = 3"
    by (simp add: length_three_tabs)
  then have "length (routes (state (example_props (three_tabs 1)))) \<le> length (iconAnimations c0)"
    by (simp add: length_three_tabs)
  from update_ok [OF example_descriptors this] obtain c v es
    where u: "update 360 (example_props (three_tabs 1)) example_hooks c0 = Inr (c, v, es)"
    by blast
  then have us: "updates 360 [(example_props (three_tabs 1), example_hooks)] c0 = Inr c"
    by simp
  have l3: "length (routes (state (example_props (three_tabs 0)))) = 3"
    by (simp add: length_three_tabs)
  note f = icon_animations_fixed [OF m us, unfolded l3]
  from f have l: "length (iconAnimations c) = 3" by blast
  from f have "(at_index (iconAnimations c) 3 = None) = ((3::nat) \<le> 3)" by blast
  then have a: "at_index (iconAnimations c) 3 = None" by simp
  have "3 < length (routes (state (example_props (six_tabs 1))))
      \<and> (3::nat) \<le> 3
      \<and> name (routes (state (example_props (six_tabs 1))) ! 3) \<noteq> ''camera''"
    by (simp add: six_tabs_def three_tabs_def route_named_def)
  with f have "update 360 (example_props (six_tabs 1)) example_hooks c = Inl TypeError"
    by blast
  with m us l a show ?thesis by blast
qed

text \<open>
  C7. A render in which the active index differs from the one of the render before runs
  the effect, which starts a spring on the indicator value towards
  \<open>activeIndex * tabWidth + tabWidth / 2 - indicatorWidth / 2\<close> (the indicator is 40
  wide, the source writes 20), with tension 300 and friction 25; \<open>tabWidth\<close> is the one of
  the current route list.
\<close>

theorem indicator_retarget:
  assumes prev: "mount w p0 h0 = Inr (c, v0, es0) \<or> update w p0 h0 c0 = Inr (c, v0, es0)"
    and nxt: "update w p h c = Inr (c', v, es)"
    and changed: "index (state p) \<noteq> index (state p0)"
  shows "springsOf IndicatorAnim es =
     [(jsub (jadd (jmul (jnum (index (state p))) (tabWidth (tabCalculations w (state p))))
                  (jdiv (tabWidth (tabCalculations w (state p))) (Fin 2)))
            (Fin (INDICATOR_WIDTH / 2)),
       300, 25)]"
proof -
  from prev have deps: "memo_deps c = (length (routes (state p0)), index (state p0))"
    using mount_component update_component by blast
  with changed have ne: "(length (routes (state p)), index (state p)) \<noteq> memo_deps c"
    by simp
  from update_component [OF nxt] ne
  have m: "memo c' = tabCalculations w (state p)"
    and es: "es = animateToActiveTab (isRTL h) (scrollViewRef h) w (memo c') (iconAnimations c)"
    by simp_all
  show ?thesis
    by (simp add: es m springsOf_animateToActiveTab INDICATOR_WIDTH_def)
qed

theorem indicator_retarget_witness:
  "\<exists>c v0 es0 c' v es.
     mount 360 (example_props (three_tabs 0)) example_hooks = Inr (c, v0, es0)
     \<and> update 360 (example_props (three_tabs 2)) example_hooks c = Inr (c', v, es)
     \<and> springsOf IndicatorAnim es = [(Fin 280, 300, 25)]"
proof -
  obtain c v0 es0
    where m: "mount 360 (example_props (three_tabs 0)) example_hooks = Inr (c, v0, es0)"
    using mount_ok [OF example_descriptors] by blast
  from mount_component [OF m] have "length (iconAnimations c) = 3"
    by (simp add: length_three_tabs)
  then have "length (routes (state (example_props (three_tabs 2)))) \<le> length (iconAnimations c)"
    by (simp add: length_three_tabs)
  from update_ok [OF example_descriptors this] obtain c' v es
    where u: "update 360 (example_props (three_tabs 2)) example_hooks c = Inr (c', v, es)"
    by blast
  have ch: "index (state (example_props (three_tabs 2)))
      \<noteq> index (state (example_props (three_tabs 0)))"
    by (simp add: three_tabs_def)
  have "springsOf IndicatorAnim es = [(Fin 280, 300, 25)]"
    using indicator_retarget [OF disjI1 [OF m] u ch]
    by (simp add: tabWidth_nonempty three_tabs_def jnum_def jsub_def INDICATOR_WIDTH_def)
  with m u show ?thesis by blast
qed

text \<open>
  C3. With an empty route list and a positive viewport width the layout
  calculator divides by zero: the tab width is +Infinity and the total width is NaN, not
  zero. The overflow flag is false, the component mounts without an error, it renders no
  tab and no floating button, and it issues no scroll command.
\<close>

theorem empty_route_list:
  assumes "routes (state p) = []" and "0 < w"
  shows "tabWidth (tabCalculations w (state p)) = PosInf
       \<and> totalWidth (tabCalculations w (state p)) = NaN
       \<and> \<not> needsScroll (tabCalculations w (state p))
       \<and> (\<exists>c v es. mount w p h = Inr (c, v, es) \<and> children v = [] \<and> floating v = None
             \<and> scrollTargets es = [])"
proof -
  have g: "tabWidth (tabCalculations w (state p)) = PosInf
       \<and> totalWidth (tabCalculations w (state p)) = NaN
       \<and> \<not> needsScroll (tabCalculations w (state p))"
    using assms by (simp add: tabCalculations_def Let_def jnum_def)
  have r: "render w p h (tabCalculations w (state p)) [] =
      Inr \<lparr>contentWidth = jmax (Fin w) (totalWidth (tabCalculations w (state p))),
           children = [], floating = None\<rparr>"
    using assms(1) by (simp add: render_def renderFloatingCameraButton_def)
  have "\<exists>c v es. mount w p h = Inr (c, v, es) \<and> children v = [] \<and> floating v = None
      \<and> scrollTargets es = []"
    using assms(1) r g
    by (simp add: mount_def Let_def scrollTargets_animateToActiveTab autoScroll_def)
  with g show ?thesis by blast
qed

theorem empty_route_list_witness:
  "tabWidth (tabCalculations 360 (state (example_props \<lparr>routes = [], index = 0\<rparr>))) = PosInf
   \<and> (\<exists>c v es. mount 360 (example_props \<lparr>routes = [], index = 0\<rparr>) example_hooks
                  = Inr (c, v, es) \<and> children v = [] \<and> floating v = None
                \<and> scrollTargets es = [])"
  using empty_route_list [of "example_props \<lparr>routes = [], index = 0\<rparr>" 360 example_hooks]
  by simp

text \<open>
  The geometry of an empty route list is not zero-width: the values at a viewport of 360.
\<close>

theorem empty_route_list_counterexample:
  "tabWidth (tabCalculations 360 \<lparr>routes = [], index = 0\<rparr>) = PosInf
   \<and> totalWidth (tabCalculations 360 \<lparr>routes = [], index = 0\<rparr>) = NaN
   \<and> tabWidth (tabCalculations 360 \<lparr>routes = [], index = 0\<rparr>) \<noteq> Fin 0
   \<and> totalWidth (tabCalculations 360 \<lparr>routes = [], index = 0\<rparr>) \<noteq> Fin 0"
  by (simp add: tabCalculations_def Let_def jnum_def)

section \<open>Properties of icon resolution\<close>

text \<open>
  A name with an entry in the table resolves to that entry, and a name that neither the
  table nor \<^verbatim>\<open>Object.prototype\<close> knows resolves to the Home icon.
\<close>

lemma icon_mapped:
  "map_of iconMap n = Some c \<Longrightarrow> IconComponent n = Component c"
  by (simp add: IconComponent_def iconMap_get_def)

lemma icon_default:
  "map_of iconMap n = None \<Longrightarrow> n \<notin> set Object_prototype \<Longrightarrow> IconComponent n = Component Home"
  by (simp add: IconComponent_def iconMap_get_def)

text \<open>
  C8. The route name \<^verbatim>\<open>constructor\<close> is not a key of the table, yet it does not resolve
  to the Home icon: the read \<^verbatim>\<open>iconMap[name]\<close> finds the property that every object
  inherits, which is truthy, so the fallback \<^verbatim>\<open>|| Home\<close> is not taken.
\<close>

theorem icon_inherited_name:
  "map_of iconMap ''constructor'' = None
   \<and> IconComponent ''constructor'' = Inherited ''constructor''
   \<and> IconComponent ''constructor'' \<noteq> Component Home"
  by (simp add: IconComponent_def iconMap_get_def iconMap_def Object_prototype_def)

end
